theory Spec2Isabelle
  imports Main "HOL-Library.Word"
begin

section \<open>The metric instrument facade of api/metric/sync.go\<close>

text \<open>
  The file wraps instrument implementations that an SDK (the backend) supplies through
  the Go interfaces \<open>SyncImpl\<close>, \<open>BoundSyncImpl\<close> and \<open>AsyncImpl\<close>. A Go interface
  value is either nil or holds a dynamic value; it is modelled as an \<open>option\<close> whose
  \<open>None\<close> is nil. The dynamic values are the package's own no-op implementations and
  whatever the SDK supplies, which stays abstract (the type variables \<open>'i\<close>, \<open>'b\<close>,
  \<open>'a\<close>). A non-nil interface holding a nil pointer of an SDK type is one of the SDK's
  values here, as it is for Go's \<open>instrument == nil\<close>.
\<close>

subsection \<open>Data model\<close>

datatype 'i SyncImpl = NoopSync | SdkSync 'i

datatype 'b BoundSyncImpl = noopBoundInstrument | SdkBound 'b

datatype 'a AsyncImpl = NoopAsync | SdkAsync 'a

text \<open>
  A Go \<open>error\<close> is nil (\<open>None\<close>) or an error value: the package's sentinel
  \<open>ErrSDKReturnedNilImpl\<close> (one variable, created once by \<open>errors.New\<close>) or any
  other error, identified by the abstract \<open>'e\<close>.
\<close>

datatype 'e error = ErrSDKReturnedNilImpl | SdkError 'e

text \<open>
  Modelled from the spec: the type \<open>Number\<close> and its constructors \<open>NewInt64Number\<close>
  and \<open>NewFloat64Number\<close> are declared outside sync.go. The spec describes the
  Numeric Value as a tagged union of a 64-bit signed integer and a 64-bit floating-point
  quantity, built only by construct-from-integer and construct-from-float, with no
  conversion between the kinds. A float64 is carried as its 64 bits: the facade does no
  floating-point arithmetic.
\<close>

type_synonym int64 = "64 word"

type_synonym float64 = "64 word"

datatype Number = Int64Number int64 | Float64Number float64

datatype NumberKind = Int64NumberKind | Float64NumberKind

text \<open>
  Modelled from the spec: \<open>NewInt64Number\<close> and \<open>NewFloat64Number\<close>, the
  spec's construct-from-integer and construct-from-float, each fixing the kind.
\<close>

definition NewInt64Number :: "int64 \<Rightarrow> Number" where
  "NewInt64Number i = Int64Number i"

definition NewFloat64Number :: "float64 \<Rightarrow> Number" where
  "NewFloat64Number f = Float64Number f"

text \<open>
  Modelled from the spec: reading a Numeric Value back gives the kind it is tagged with
  and, for that kind only, the value it holds.
\<close>

fun Kind :: "Number \<Rightarrow> NumberKind" where
  "Kind (Int64Number _) = Int64NumberKind"
| "Kind (Float64Number _) = Float64NumberKind"

fun AsInt64 :: "Number \<Rightarrow> int64 option" where
  "AsInt64 (Int64Number i) = Some i"
| "AsInt64 (Float64Number _) = None"

fun AsFloat64 :: "Number \<Rightarrow> float64 option" where
  "AsFloat64 (Float64Number f) = Some f"
| "AsFloat64 (Int64Number _) = None"

text \<open>The structs of sync.go, field by field.\<close>

record 'i Measurement =
  number :: Number
  instrument :: "'i SyncImpl option"

text \<open>
  Modelled from the spec: the struct \<open>Observation\<close> is declared outside sync.go; the
  spec gives it the fields of a measurement, with an asynchronous instrument.
\<close>

record 'a Observation =
  number :: Number
  instrument :: "'a AsyncImpl option"

record 'i syncInstrument =
  instrument :: "'i SyncImpl option"

record 'b syncBoundInstrument =
  boundInstrument :: "'b BoundSyncImpl option"

record 'a asyncInstrument =
  instrument :: "'a AsyncImpl option"

text \<open>
  Modelled from the spec: the typed handles \<open>Int64Counter\<close>, \<open>Float64Counter\<close>,
  \<open>Int64Measure\<close>, \<open>Float64Measure\<close>, \<open>Int64Observer\<close> and \<open>Float64Observer\<close> are
  declared outside sync.go. The spec has each handle own exactly one capability interface
  and add no state of its own; the struct literals of the wrap functions name the one
  field, the embedded \<open>syncInstrument\<close> or \<open>asyncInstrument\<close>.
\<close>

record 'i Int64Counter =
  syncInstrument :: "'i syncInstrument"

record 'i Float64Counter =
  syncInstrument :: "'i syncInstrument"

record 'i Int64Measure =
  syncInstrument :: "'i syncInstrument"

record 'i Float64Measure =
  syncInstrument :: "'i syncInstrument"

record 'a Int64Observer =
  asyncInstrument :: "'a asyncInstrument"

record 'a Float64Observer =
  asyncInstrument :: "'a asyncInstrument"

subsection \<open>Getters and constructors\<close>

definition Measurement_SyncImpl :: "'i Measurement \<Rightarrow> 'i SyncImpl option" where
  "Measurement_SyncImpl m = Measurement.instrument m"

definition Measurement_Number :: "'i Measurement \<Rightarrow> Number" where
  "Measurement_Number m = Measurement.number m"

definition Observation_AsyncImpl :: "'a Observation \<Rightarrow> 'a AsyncImpl option" where
  "Observation_AsyncImpl m = Observation.instrument m"

definition Observation_Number :: "'a Observation \<Rightarrow> Number" where
  "Observation_Number m = Observation.number m"

definition asyncInstrument_AsyncImpl :: "'a asyncInstrument \<Rightarrow> 'a AsyncImpl option" where
  "asyncInstrument_AsyncImpl a = asyncInstrument.instrument a"

definition syncInstrument_SyncImpl :: "'i syncInstrument \<Rightarrow> 'i SyncImpl option" where
  "syncInstrument_SyncImpl s = syncInstrument.instrument s"

definition newSyncBoundInstrument :: "'b BoundSyncImpl option \<Rightarrow> 'b syncBoundInstrument" where
  "newSyncBoundInstrument bound = \<lparr>boundInstrument = bound\<rparr>"

definition newMeasurement :: "'i SyncImpl option \<Rightarrow> Number \<Rightarrow> 'i Measurement" where
  "newMeasurement inst num =
     \<lparr>Measurement.number = num, Measurement.instrument = inst\<rparr>"

subsection \<open>The construction safety net\<close>

text \<open>
  Both check functions overwrite their parameters inside the nil branch and return the
  struct built from the final values; the \<open>let\<close> holds those final values.
\<close>

definition checkNewAsync ::
  "'a AsyncImpl option \<Rightarrow> 'e error option \<Rightarrow> 'a asyncInstrument \<times> 'e error option" where
  "checkNewAsync inst err =
     (let (inst', err') =
        (if inst = None
         then (Some NoopAsync, if err = None then Some ErrSDKReturnedNilImpl else err)
         else (inst, err))
      in (\<lparr>asyncInstrument.instrument = inst'\<rparr>, err'))"

definition checkNewSync ::
  "'i SyncImpl option \<Rightarrow> 'e error option \<Rightarrow> 'i syncInstrument \<times> 'e error option" where
  "checkNewSync inst err =
     (let (inst', err') =
        (if inst = None
         then (Some NoopSync, if err = None then Some ErrSDKReturnedNilImpl else err)
         else (inst, err))
      in (\<lparr>syncInstrument.instrument = inst'\<rparr>, err'))"

definition wrapInt64CounterInstrument ::
  "'i SyncImpl option \<Rightarrow> 'e error option \<Rightarrow> 'i Int64Counter \<times> 'e error option" where
  "wrapInt64CounterInstrument syncInst err =
     (let (common, err') = checkNewSync syncInst err
      in (\<lparr>Int64Counter.syncInstrument = common\<rparr>, err'))"

definition wrapFloat64CounterInstrument ::
  "'i SyncImpl option \<Rightarrow> 'e error option \<Rightarrow> 'i Float64Counter \<times> 'e error option" where
  "wrapFloat64CounterInstrument syncInst err =
     (let (common, err') = checkNewSync syncInst err
      in (\<lparr>Float64Counter.syncInstrument = common\<rparr>, err'))"

definition wrapInt64MeasureInstrument ::
  "'i SyncImpl option \<Rightarrow> 'e error option \<Rightarrow> 'i Int64Measure \<times> 'e error option" where
  "wrapInt64MeasureInstrument syncInst err =
     (let (common, err') = checkNewSync syncInst err
      in (\<lparr>Int64Measure.syncInstrument = common\<rparr>, err'))"

definition wrapFloat64MeasureInstrument ::
  "'i SyncImpl option \<Rightarrow> 'e error option \<Rightarrow> 'i Float64Measure \<times> 'e error option" where
  "wrapFloat64MeasureInstrument syncInst err =
     (let (common, err') = checkNewSync syncInst err
      in (\<lparr>Float64Measure.syncInstrument = common\<rparr>, err'))"

definition wrapInt64ObserverInstrument ::
  "'a AsyncImpl option \<Rightarrow> 'e error option \<Rightarrow> 'a Int64Observer \<times> 'e error option" where
  "wrapInt64ObserverInstrument asyncInst err =
     (let (common, err') = checkNewAsync asyncInst err
      in (\<lparr>Int64Observer.asyncInstrument = common\<rparr>, err'))"

definition wrapFloat64ObserverInstrument ::
  "'a AsyncImpl option \<Rightarrow> 'e error option \<Rightarrow> 'a Float64Observer \<times> 'e error option" where
  "wrapFloat64ObserverInstrument asyncInst err =
     (let (common, err') = checkNewAsync asyncInst err
      in (\<lparr>Float64Observer.asyncInstrument = common\<rparr>, err'))"

subsection \<open>Calls through the capability interfaces\<close>

text \<open>
  The facade records nothing itself: its only effects are the method calls it makes on
  the wrapped interface values. The state threaded through the handle operations is
  therefore the sequence of calls that have reached SDK objects so far, each with its
  arguments (\<open>'c\<close> is \<open>context.Context\<close>, \<open>'l\<close> is \<open>kv.KeyValue\<close>; both are opaque
  to this file) and, for \<open>Bind\<close>, with the bound implementation the SDK returned. The
  SDK is a parameter: the function \<open>sdk\<close> gives what its \<open>Bind\<close> returns after a
  given history, which may be nil.
\<close>

datatype ('i, 'b, 'c, 'l) call =
    BindCall 'i "'l list" "'b BoundSyncImpl option"
  | RecordOneCall 'i 'c Number "'l list"
  | BoundRecordOneCall 'b 'c Number
  | UnbindCall 'b

type_synonym ('i, 'b, 'c, 'l) calls = "('i, 'b, 'c, 'l) call list"

type_synonym ('i, 'b, 'c, 'l) sdk =
  "('i, 'b, 'c, 'l) calls \<Rightarrow> 'i \<Rightarrow> 'l list \<Rightarrow> 'b BoundSyncImpl option"

text \<open>A method call on a nil interface value is a run-time panic in Go.\<close>

datatype panic = NilDereference

text \<open>
  Modelled from the spec: the methods of \<open>NoopSync\<close> and of its bound counterpart are
  declared outside sync.go. The spec describes the no-op implementation as one whose
  operations are valid to call but produce no observable effect, so they leave the call
  sequence as it is, and \<open>Bind\<close> on the no-op yields the no-op bound instrument.
  The other two equations of each function are Go's: a method call on nil panics, and
  a call on an SDK value reaches the SDK, where it is recorded with its arguments.
\<close>

fun SyncImpl_Bind ::
  "('i, 'b, 'c, 'l) sdk \<Rightarrow> 'i SyncImpl option \<Rightarrow> 'l list \<Rightarrow> ('i, 'b, 'c, 'l) calls
     \<Rightarrow> panic + 'b BoundSyncImpl option \<times> ('i, 'b, 'c, 'l) calls" where
  "SyncImpl_Bind sdk None labels w = Inl NilDereference"
| "SyncImpl_Bind sdk (Some NoopSync) labels w = Inr (Some noopBoundInstrument, w)"
| "SyncImpl_Bind sdk (Some (SdkSync i)) labels w =
     Inr (sdk w i labels, w @ [BindCall i labels (sdk w i labels)])"

text \<open>
  Modelled from the spec: \<open>RecordOne\<close> on the no-op has no effect.
\<close>

fun SyncImpl_RecordOne ::
  "'i SyncImpl option \<Rightarrow> 'c \<Rightarrow> Number \<Rightarrow> 'l list \<Rightarrow> ('i, 'b, 'c, 'l) calls
     \<Rightarrow> panic + unit \<times> ('i, 'b, 'c, 'l) calls" where
  "SyncImpl_RecordOne None ctx num labels w = Inl NilDereference"
| "SyncImpl_RecordOne (Some NoopSync) ctx num labels w = Inr ((), w)"
| "SyncImpl_RecordOne (Some (SdkSync i)) ctx num labels w =
     Inr ((), w @ [RecordOneCall i ctx num labels])"

text \<open>
  Modelled from the spec: \<open>RecordOne\<close> on the no-op bound instrument has no effect.
\<close>

fun BoundSyncImpl_RecordOne ::
  "'b BoundSyncImpl option \<Rightarrow> 'c \<Rightarrow> Number \<Rightarrow> ('i, 'b, 'c, 'l) calls
     \<Rightarrow> panic + unit \<times> ('i, 'b, 'c, 'l) calls" where
  "BoundSyncImpl_RecordOne None ctx num w = Inl NilDereference"
| "BoundSyncImpl_RecordOne (Some noopBoundInstrument) ctx num w = Inr ((), w)"
| "BoundSyncImpl_RecordOne (Some (SdkBound b)) ctx num w =
     Inr ((), w @ [BoundRecordOneCall b ctx num])"

text \<open>
  Modelled from the spec: \<open>Unbind\<close> on the no-op bound instrument has no effect.
\<close>

fun BoundSyncImpl_Unbind ::
  "'b BoundSyncImpl option \<Rightarrow> ('i, 'b, 'c, 'l) calls
     \<Rightarrow> panic + unit \<times> ('i, 'b, 'c, 'l) calls" where
  "BoundSyncImpl_Unbind None w = Inl NilDereference"
| "BoundSyncImpl_Unbind (Some noopBoundInstrument) w = Inr ((), w)"
| "BoundSyncImpl_Unbind (Some (SdkBound b)) w = Inr ((), w @ [UnbindCall b])"

subsection \<open>The operations of the handles\<close>

text \<open>
  Every method that application code calls on a handle takes the call sequence and
  returns a panic, or its result with the call sequence it leaves behind.
\<close>

definition syncInstrument_bind ::
  "('i, 'b, 'c, 'l) sdk \<Rightarrow> 'i syncInstrument \<Rightarrow> 'l list \<Rightarrow> ('i, 'b, 'c, 'l) calls
     \<Rightarrow> panic + 'b syncBoundInstrument \<times> ('i, 'b, 'c, 'l) calls" where
  "syncInstrument_bind sdk s labels w =
     (case SyncImpl_Bind sdk (syncInstrument.instrument s) labels w of
        Inl p \<Rightarrow> Inl p
      | Inr (bound, w') \<Rightarrow> Inr (newSyncBoundInstrument bound, w'))"

definition syncInstrument_float64Measurement ::
  "'i syncInstrument \<Rightarrow> float64 \<Rightarrow> ('i, 'b, 'c, 'l) calls
     \<Rightarrow> panic + 'i Measurement \<times> ('i, 'b, 'c, 'l) calls" where
  "syncInstrument_float64Measurement s v w =
     Inr (newMeasurement (syncInstrument.instrument s) (NewFloat64Number v), w)"

definition syncInstrument_int64Measurement ::
  "'i syncInstrument \<Rightarrow> int64 \<Rightarrow> ('i, 'b, 'c, 'l) calls
     \<Rightarrow> panic + 'i Measurement \<times> ('i, 'b, 'c, 'l) calls" where
  "syncInstrument_int64Measurement s v w =
     Inr (newMeasurement (syncInstrument.instrument s) (NewInt64Number v), w)"

definition syncInstrument_directRecord ::
  "'i syncInstrument \<Rightarrow> 'c \<Rightarrow> Number \<Rightarrow> 'l list \<Rightarrow> ('i, 'b, 'c, 'l) calls
     \<Rightarrow> panic + unit \<times> ('i, 'b, 'c, 'l) calls" where
  "syncInstrument_directRecord s ctx num labels w =
     SyncImpl_RecordOne (syncInstrument.instrument s) ctx num labels w"

definition syncBoundInstrument_directRecord ::
  "'b syncBoundInstrument \<Rightarrow> 'c \<Rightarrow> Number \<Rightarrow> ('i, 'b, 'c, 'l) calls
     \<Rightarrow> panic + unit \<times> ('i, 'b, 'c, 'l) calls" where
  "syncBoundInstrument_directRecord h ctx num w =
     BoundSyncImpl_RecordOne (boundInstrument h) ctx num w"

definition syncBoundInstrument_Unbind ::
  "'b syncBoundInstrument \<Rightarrow> ('i, 'b, 'c, 'l) calls
     \<Rightarrow> panic + unit \<times> ('i, 'b, 'c, 'l) calls" where
  "syncBoundInstrument_Unbind h w = BoundSyncImpl_Unbind (boundInstrument h) w"

subsection \<open>Scenarios of the spec\<close>

text \<open>
  The two call sequences that the spec compares: bind with a label set and record once
  on the bound handle; and the end-to-end scenario bind, record once, unbind. A panic
  ends a scenario.
\<close>

definition bind_then_directRecord ::
  "('i, 'b, 'c, 'l) sdk \<Rightarrow> 'i syncInstrument \<Rightarrow> 'l list \<Rightarrow> 'c \<Rightarrow> Number
     \<Rightarrow> ('i, 'b, 'c, 'l) calls \<Rightarrow> panic + unit \<times> ('i, 'b, 'c, 'l) calls" where
  "bind_then_directRecord sdk s labels ctx num w =
     (case syncInstrument_bind sdk s labels w of
        Inl p \<Rightarrow> Inl p
      | Inr (h, w1) \<Rightarrow> syncBoundInstrument_directRecord h ctx num w1)"

definition bind_record_unbind ::
  "('i, 'b, 'c, 'l) sdk \<Rightarrow> 'i syncInstrument \<Rightarrow> 'l list \<Rightarrow> 'c \<Rightarrow> Number
     \<Rightarrow> ('i, 'b, 'c, 'l) calls \<Rightarrow> panic + unit \<times> ('i, 'b, 'c, 'l) calls" where
  "bind_record_unbind sdk s labels ctx num w =
     (case syncInstrument_bind sdk s labels w of
        Inl p \<Rightarrow> Inl p
      | Inr (h, w1) \<Rightarrow>
          (case syncBoundInstrument_directRecord h ctx num w1 of
             Inl p \<Rightarrow> Inl p
           | Inr (u, w2) \<Rightarrow> syncBoundInstrument_Unbind h w2))"

text \<open>
  The spec's notion of what reaches the backend: a logical recording is an instrument, a
  context, a value and a label set. An unbound \<open>RecordOne\<close> delivers all four at once;
  a bound \<open>RecordOne\<close> delivers context and value, and takes instrument and label set
  from the \<open>Bind\<close> call that returned its bound implementation (the latest one, should
  the SDK return the same bound implementation twice).
\<close>

fun recordings_from ::
  "('b \<Rightarrow> ('i \<times> 'l list) option) \<Rightarrow> ('i, 'b, 'c, 'l) calls
     \<Rightarrow> ('i \<times> 'c \<times> Number \<times> 'l list) list" where
  "recordings_from env [] = []"
| "recordings_from env (BindCall i labels None # cs) = recordings_from env cs"
| "recordings_from env (BindCall i labels (Some noopBoundInstrument) # cs) =
     recordings_from env cs"
| "recordings_from env (BindCall i labels (Some (SdkBound b)) # cs) =
     recordings_from (env(b \<mapsto> (i, labels))) cs"
| "recordings_from env (RecordOneCall i ctx num labels # cs) =
     (i, ctx, num, labels) # recordings_from env cs"
| "recordings_from env (BoundRecordOneCall b ctx num # cs) =
     (case env b of
        None \<Rightarrow> recordings_from env cs
      | Some (i, labels) \<Rightarrow> (i, ctx, num, labels) # recordings_from env cs)"
| "recordings_from env (UnbindCall b # cs) = recordings_from env cs"

definition logical_recordings ::
  "('i, 'b, 'c, 'l) calls \<Rightarrow> ('i \<times> 'c \<times> Number \<times> 'l list) list" where
  "logical_recordings w = recordings_from Map.empty w"

text \<open>
  Two outcomes are the same to the backend when both panic, or both return and the
  logical recordings that have reached the backend agree.
\<close>

fun same_recordings ::
  "panic + unit \<times> ('i, 'b, 'c, 'l) calls \<Rightarrow> panic + unit \<times> ('i, 'b, 'c, 'l) calls \<Rightarrow> bool" where
  "same_recordings (Inr (u1, w1)) (Inr (u2, w2)) =
     (logical_recordings w1 = logical_recordings w2)"
| "same_recordings (Inl p1) (Inl p2) = True"
| "same_recordings (Inl p1) (Inr r2) = False"
| "same_recordings (Inr r1) (Inl p2) = False"

section \<open>Verified properties\<close>

subsection \<open>Shared facts\<close>

lemma checkNewSync_present:
  "checkNewSync (Some impl) err = (\<lparr>syncInstrument.instrument = Some impl\<rparr>, err)"
  by (simp add: checkNewSync_def)

lemma checkNewSync_absent_err:
  "checkNewSync None (Some e) = (\<lparr>syncInstrument.instrument = Some NoopSync\<rparr>, Some e)"
  by (simp add: checkNewSync_def)

lemma checkNewSync_absent_nil:
  "checkNewSync None None =
     (\<lparr>syncInstrument.instrument = Some NoopSync\<rparr>, Some ErrSDKReturnedNilImpl)"
  by (simp add: checkNewSync_def)

lemma checkNewAsync_present:
  "checkNewAsync (Some impl) err = (\<lparr>asyncInstrument.instrument = Some impl\<rparr>, err)"
  by (simp add: checkNewAsync_def)

lemma checkNewAsync_absent_err:
  "checkNewAsync None (Some e) = (\<lparr>asyncInstrument.instrument = Some NoopAsync\<rparr>, Some e)"
  by (simp add: checkNewAsync_def)

lemma checkNewAsync_absent_nil:
  "checkNewAsync None None =
     (\<lparr>asyncInstrument.instrument = Some NoopAsync\<rparr>, Some ErrSDKReturnedNilImpl)"
  by (simp add: checkNewAsync_def)

lemmas checkNew_simps =
  checkNewSync_present checkNewSync_absent_err checkNewSync_absent_nil
  checkNewAsync_present checkNewAsync_absent_err checkNewAsync_absent_nil

lemmas wrap_defs =
  wrapInt64CounterInstrument_def wrapFloat64CounterInstrument_def
  wrapInt64MeasureInstrument_def wrapFloat64MeasureInstrument_def
  wrapInt64ObserverInstrument_def wrapFloat64ObserverInstrument_def

lemma checkNewSync_instrument:
  "syncInstrument.instrument (fst (checkNewSync impl err)) =
     (case impl of None \<Rightarrow> Some NoopSync | Some x \<Rightarrow> Some x)"
  by (cases impl; cases err) (simp_all add: checkNew_simps)

lemma checkNewAsync_instrument:
  "asyncInstrument.instrument (fst (checkNewAsync impl err)) =
     (case impl of None \<Rightarrow> Some NoopAsync | Some x \<Rightarrow> Some x)"
  by (cases impl; cases err) (simp_all add: checkNew_simps)

lemma SyncImpl_Bind_present: "SyncImpl_Bind sdk (Some x) labels w \<noteq> Inl p"
  by (cases x) simp_all

lemma SyncImpl_RecordOne_present: "SyncImpl_RecordOne (Some x) ctx num labels w \<noteq> Inl p"
  by (cases x) simp_all

lemma recordings_from_Bind:
  "recordings_from env (BindCall i labels r # cs) =
     recordings_from
       (case r of None \<Rightarrow> env | Some noopBoundInstrument \<Rightarrow> env
        | Some (SdkBound b) \<Rightarrow> env(b \<mapsto> (i, labels))) cs"
proof (cases r)
  case None
  then show ?thesis by simp
next
  case (Some x)
  then show ?thesis by (cases x) simp_all
qed

lemma recordings_from_bound_record:
  "recordings_from env (w @ [BindCall i labels (Some (SdkBound b)), BoundRecordOneCall b ctx num]) =
     recordings_from env w @ [(i, ctx, num, labels)]"
proof (induction w arbitrary: env)
  case Nil
  show ?case by simp
next
  case (Cons c cs)
  show ?case
    by (cases c) (simp_all add: Cons.IH recordings_from_Bind split: option.splits)
qed

lemma recordings_from_record:
  "recordings_from env (w @ [RecordOneCall i ctx num labels]) =
     recordings_from env w @ [(i, ctx, num, labels)]"
proof (induction w arbitrary: env)
  case Nil
  show ?case by simp
next
  case (Cons c cs)
  show ?case
    by (cases c) (simp_all add: Cons.IH recordings_from_Bind split: option.splits)
qed

lemma bind_then_directRecord_nil_bound:
  "bind_then_directRecord (\<lambda>w i labels. None)
     \<lparr>syncInstrument.instrument = Some (SdkSync i)\<rparr> labels ctx num w = Inl NilDereference"
  by (simp add: bind_then_directRecord_def syncInstrument_bind_def
      syncBoundInstrument_directRecord_def newSyncBoundInstrument_def)

subsection \<open>The construction safety net\<close>

text \<open>
  C1. When the backend supplies a non-nil implementation \<open>I\<close> (or \<open>A\<close> for an
  asynchronous instrument) together with any error \<open>E\<close>, nil or not, both check
  functions and all six wrap functions return a handle that wraps exactly that
  implementation, and return \<open>E\<close> itself.
\<close>

theorem present_impl_wrapped_error_passed:
  "checkNewSync (Some I) E = (\<lparr>syncInstrument.instrument = Some I\<rparr>, E)
   \<and> checkNewAsync (Some A) E = (\<lparr>asyncInstrument.instrument = Some A\<rparr>, E)
   \<and> wrapInt64CounterInstrument (Some I) E =
       (\<lparr>Int64Counter.syncInstrument = \<lparr>syncInstrument.instrument = Some I\<rparr>\<rparr>, E)
   \<and> wrapFloat64CounterInstrument (Some I) E =
       (\<lparr>Float64Counter.syncInstrument = \<lparr>syncInstrument.instrument = Some I\<rparr>\<rparr>, E)
   \<and> wrapInt64MeasureInstrument (Some I) E =
       (\<lparr>Int64Measure.syncInstrument = \<lparr>syncInstrument.instrument = Some I\<rparr>\<rparr>, E)
   \<and> wrapFloat64MeasureInstrument (Some I) E =
       (\<lparr>Float64Measure.syncInstrument = \<lparr>syncInstrument.instrument = Some I\<rparr>\<rparr>, E)
   \<and> wrapInt64ObserverInstrument (Some A) E =
       (\<lparr>Int64Observer.asyncInstrument = \<lparr>asyncInstrument.instrument = Some A\<rparr>\<rparr>, E)
   \<and> wrapFloat64ObserverInstrument (Some A) E =
       (\<lparr>Float64Observer.asyncInstrument = \<lparr>asyncInstrument.instrument = Some A\<rparr>\<rparr>, E)"
  by (simp add: checkNew_simps wrap_defs)

text \<open>
  C2. When the backend's implementation is nil, both check functions return a handle
  that wraps the built-in no-op. The error returned is the backend's own error when it
  gave one, and the sentinel \<open>ErrSDKReturnedNilImpl\<close> when it gave none; in either
  case it is not nil.
\<close>

theorem absent_impl_noop_and_error:
  "checkNewSync None (Some e) = (\<lparr>syncInstrument.instrument = Some NoopSync\<rparr>, Some e)
   \<and> checkNewSync None None =
       (\<lparr>syncInstrument.instrument = Some NoopSync\<rparr>, Some ErrSDKReturnedNilImpl)
   \<and> snd (checkNewSync None E) \<noteq> None
   \<and> checkNewAsync None (Some e) = (\<lparr>asyncInstrument.instrument = Some NoopAsync\<rparr>, Some e)
   \<and> checkNewAsync None None =
       (\<lparr>asyncInstrument.instrument = Some NoopAsync\<rparr>, Some ErrSDKReturnedNilImpl)
   \<and> snd (checkNewAsync None E) \<noteq> None"
  by (cases E) (simp_all add: checkNew_simps)

text \<open>
  C3. Whatever pair of implementation and error the check functions receive, the handle
  they return wraps a non-nil interface value. Hence bind, both measurement constructors
  and directRecord on that handle do not panic on a nil implementation, for any SDK and
  any call history. On the handle built from (nil, nil), directRecord returns and leaves
  the sequence of backend calls as it was.
\<close>

theorem checked_handle_never_nil:
  "syncInstrument.instrument (fst (checkNewSync impl err)) \<noteq> None
   \<and> asyncInstrument.instrument (fst (checkNewAsync aimpl err)) \<noteq> None
   \<and> syncInstrument_bind sdk (fst (checkNewSync impl err)) labels w \<noteq> Inl p
   \<and> syncInstrument_int64Measurement (fst (checkNewSync impl err)) i w \<noteq> Inl p
   \<and> syncInstrument_float64Measurement (fst (checkNewSync impl err)) f w \<noteq> Inl p
   \<and> syncInstrument_directRecord (fst (checkNewSync impl err)) ctx num labels w \<noteq> Inl p
   \<and> syncInstrument_directRecord (fst (checkNewSync None None)) ctx num labels w = Inr ((), w)"
proof -
  obtain x where x: "syncInstrument.instrument (fst (checkNewSync impl err)) = Some x"
    by (cases impl) (simp_all add: checkNewSync_instrument)
  have "asyncInstrument.instrument (fst (checkNewAsync aimpl err)) \<noteq> None"
    by (cases aimpl) (simp_all add: checkNewAsync_instrument)
  moreover have "syncInstrument_bind sdk (fst (checkNewSync impl err)) labels w \<noteq> Inl p"
    by (simp add: syncInstrument_bind_def x SyncImpl_Bind_present split: sum.splits)
  moreover have "syncInstrument_directRecord (fst (checkNewSync impl err)) ctx num labels w \<noteq> Inl p"
    by (simp add: syncInstrument_directRecord_def x SyncImpl_RecordOne_present)
  moreover have "syncInstrument_directRecord (fst (checkNewSync None None)) ctx num labels w = Inr ((), w)"
    by (simp add: syncInstrument_directRecord_def checkNewSync_absent_nil)
  ultimately show ?thesis
    by (simp add: x syncInstrument_int64Measurement_def syncInstrument_float64Measurement_def)
qed

subsection \<open>Measurements\<close>

text \<open>
  C4. For every int64 value, the measurement that int64Measurement builds holds, as its
  Number, that value tagged as an integer; for every float64 value, the measurement that
  float64Measurement builds holds that value tagged as floating-point. Nothing is
  converted on the way.
\<close>

theorem measurement_number_roundtrip:
  "(\<exists>m w'. syncInstrument_int64Measurement s i w = Inr (m, w')
       \<and> Measurement_Number m = NewInt64Number i
       \<and> Kind (Measurement_Number m) = Int64NumberKind
       \<and> AsInt64 (Measurement_Number m) = Some i)
   \<and> (\<exists>m w'. syncInstrument_float64Measurement s f w = Inr (m, w')
       \<and> Measurement_Number m = NewFloat64Number f
       \<and> Kind (Measurement_Number m) = Float64NumberKind
       \<and> AsFloat64 (Measurement_Number m) = Some f)"
  by (simp add: syncInstrument_int64Measurement_def syncInstrument_float64Measurement_def
      newMeasurement_def Measurement_Number_def NewInt64Number_def NewFloat64Number_def)

text \<open>
  C5. Building a measurement has no effect and cannot fail: for every handle (even one
  whose implementation is nil), every value and every call history, both constructors
  return a measurement, not a panic, and the sequence of calls made on the wrapped
  implementation is the one they started from: no RecordOne, no Bind.
\<close>

theorem measurement_construction_pure:
  "syncInstrument_int64Measurement s i w =
     Inr (newMeasurement (syncInstrument.instrument s) (NewInt64Number i), w)
   \<and> syncInstrument_float64Measurement s f w =
     Inr (newMeasurement (syncInstrument.instrument s) (NewFloat64Number f), w)"
  by (simp add: syncInstrument_int64Measurement_def syncInstrument_float64Measurement_def)

text \<open>
  C9. A measurement refers to the implementation of the handle that built it: SyncImpl
  of the measurement equals SyncImpl of the handle, for both constructors.
\<close>

theorem measurement_keeps_instrument:
  "(\<exists>m w'. syncInstrument_int64Measurement s i w = Inr (m, w')
       \<and> Measurement_SyncImpl m = syncInstrument_SyncImpl s)
   \<and> (\<exists>m w'. syncInstrument_float64Measurement s f w = Inr (m, w')
       \<and> Measurement_SyncImpl m = syncInstrument_SyncImpl s)"
  by (simp add: syncInstrument_int64Measurement_def syncInstrument_float64Measurement_def
      newMeasurement_def Measurement_SyncImpl_def syncInstrument_SyncImpl_def)

subsection \<open>Recording\<close>

text \<open>
  C6. directRecord on a handle is one call of RecordOne on the wrapped implementation
  with the same context, number and label set; on a handle that wraps an SDK
  implementation the backend receives exactly that one call. directRecord on a bound
  handle is one call of RecordOne on the wrapped bound implementation with the same
  context and number. The context has an arbitrary type: nothing looks into it.
\<close>

theorem directRecord_delegates:
  "syncInstrument_directRecord s ctx num labels w =
     SyncImpl_RecordOne (syncInstrument.instrument s) ctx num labels w
   \<and> syncInstrument_directRecord \<lparr>syncInstrument.instrument = Some (SdkSync i)\<rparr> ctx num labels w =
       Inr ((), w @ [RecordOneCall i ctx num labels])
   \<and> syncBoundInstrument_directRecord h ctx num w =
       BoundSyncImpl_RecordOne (boundInstrument h) ctx num w
   \<and> syncBoundInstrument_directRecord \<lparr>boundInstrument = Some (SdkBound b)\<rparr> ctx num w =
       Inr ((), w @ [BoundRecordOneCall b ctx num])"
  by (simp add: syncInstrument_directRecord_def syncBoundInstrument_directRecord_def)

text \<open>
  C7, as the claim states it: for every handle, binding with a label set and recording
  on the bound handle is the same to the backend as recording with that label set on the
  unbound handle. This fails when the SDK's Bind returns nil: bind wraps the nil without
  a check, the bound directRecord panics, and the unbound directRecord records.
\<close>

theorem bind_then_record_nil_bound_counterexample:
  "\<not> same_recordings
       (bind_then_directRecord (\<lambda>w i labels. None)
          \<lparr>syncInstrument.instrument = Some (SdkSync (0::nat))\<rparr>
          [(''k'', ''v'')] (0::nat) (NewInt64Number 5) ([] :: (nat, nat, nat, string \<times> string) calls))
       (syncInstrument_directRecord
          \<lparr>syncInstrument.instrument = Some (SdkSync (0::nat))\<rparr>
          (0::nat) (NewInt64Number 5) [(''k'', ''v'')] [])"
  by (simp add: bind_then_directRecord_def syncInstrument_bind_def
      syncBoundInstrument_directRecord_def syncInstrument_directRecord_def
      newSyncBoundInstrument_def)

text \<open>
  C7, amended: when the SDK's Bind returns a bound implementation of its own for the
  label set, bind followed by directRecord on the bound handle, and directRecord with
  the label set on the unbound handle, both return, and the same logical recording
  (instrument, context, value, label set) is added to what has reached the backend. On a
  handle that wraps the no-op, both return and nothing reaches the backend.
\<close>

theorem bind_then_record_same_recording:
  "(sdk w i labels = Some (SdkBound b) \<longrightarrow>
      (\<exists>w1 w2.
         bind_then_directRecord sdk \<lparr>syncInstrument.instrument = Some (SdkSync i)\<rparr>
           labels ctx num w = Inr ((), w1)
         \<and> syncInstrument_directRecord \<lparr>syncInstrument.instrument = Some (SdkSync i)\<rparr>
           ctx num labels w = Inr ((), w2)
         \<and> logical_recordings w1 = logical_recordings w @ [(i, ctx, num, labels)]
         \<and> logical_recordings w2 = logical_recordings w @ [(i, ctx, num, labels)])
      \<and> same_recordings
          (bind_then_directRecord sdk \<lparr>syncInstrument.instrument = Some (SdkSync i)\<rparr>
             labels ctx num w)
          (syncInstrument_directRecord \<lparr>syncInstrument.instrument = Some (SdkSync i)\<rparr>
             ctx num labels w))
   \<and> bind_then_directRecord sdk \<lparr>syncInstrument.instrument = Some NoopSync\<rparr>
        labels ctx num w = Inr ((), w)
   \<and> syncInstrument_directRecord \<lparr>syncInstrument.instrument = Some NoopSync\<rparr>
        ctx num labels w = Inr ((), w)"
  by (simp add: bind_then_directRecord_def syncInstrument_bind_def
      syncBoundInstrument_directRecord_def syncInstrument_directRecord_def
      newSyncBoundInstrument_def logical_recordings_def
      recordings_from_bound_record recordings_from_record)

theorem bind_then_record_same_recording_witness:
  "(\<lambda>w i labels. Some (SdkBound (7::nat))) ([] :: (nat, nat, nat, string \<times> string) calls)
      (0::nat) [(''k'', ''v'')] = Some (SdkBound 7)
   \<and> same_recordings
       (bind_then_directRecord (\<lambda>w i labels. Some (SdkBound (7::nat)))
          \<lparr>syncInstrument.instrument = Some (SdkSync (0::nat))\<rparr>
          [(''k'', ''v'')] (0::nat) (NewInt64Number 5) ([] :: (nat, nat, nat, string \<times> string) calls))
       (syncInstrument_directRecord
          \<lparr>syncInstrument.instrument = Some (SdkSync (0::nat))\<rparr>
          (0::nat) (NewInt64Number 5) [(''k'', ''v'')] [])"
  using bind_then_record_same_recording
    [of "\<lambda>w i labels. Some (SdkBound (7::nat))"
        "[] :: (nat, nat, nat, string \<times> string) calls" "0::nat" "[(''k'', ''v'')]" "7::nat"
        "0::nat" "NewInt64Number 5"]
  by simp

text \<open>
  C8. On a handle that wraps an SDK implementation whose Bind returns a bound
  implementation of its own: bind makes one Bind call and returns the handle of that
  bound implementation; the scenario bind, record once, unbind adds to the backend's
  call sequence exactly one Bind call, then one RecordOne call with the value, then one
  Unbind call, in this order; and Unbind on a handle of such a bound implementation adds
  exactly one Unbind call.
\<close>

theorem bind_record_unbind_calls:
  assumes "sdk w i labels = Some (SdkBound b)"
  shows "syncInstrument_bind sdk \<lparr>syncInstrument.instrument = Some (SdkSync i)\<rparr> labels w =
           Inr (\<lparr>boundInstrument = Some (SdkBound b)\<rparr>,
                w @ [BindCall i labels (Some (SdkBound b))])
   \<and> bind_record_unbind sdk \<lparr>syncInstrument.instrument = Some (SdkSync i)\<rparr> labels ctx num w =
           Inr ((), w @ [BindCall i labels (Some (SdkBound b)),
                         BoundRecordOneCall b ctx num, UnbindCall b])
   \<and> syncBoundInstrument_Unbind \<lparr>boundInstrument = Some (SdkBound b)\<rparr> w' =
           Inr ((), w' @ [UnbindCall b])"
  using assms
  by (simp add: bind_record_unbind_def syncInstrument_bind_def
      syncBoundInstrument_directRecord_def syncBoundInstrument_Unbind_def
      newSyncBoundInstrument_def)

theorem bind_record_unbind_calls_witness:
  "(\<lambda>w i labels. Some (SdkBound (7::nat))) ([] :: (nat, nat, nat, string \<times> string) calls)
      (0::nat) [(''k'', ''v'')] = Some (SdkBound 7)
   \<and> bind_record_unbind (\<lambda>w i labels. Some (SdkBound (7::nat)))
        \<lparr>syncInstrument.instrument = Some (SdkSync (0::nat))\<rparr>
        [(''k'', ''v'')] (0::nat) (NewInt64Number 5) [] =
      Inr ((), [BindCall 0 [(''k'', ''v'')] (Some (SdkBound 7)),
                BoundRecordOneCall 7 0 (Int64Number 5), UnbindCall 7])"
  using bind_record_unbind_calls
    [of "\<lambda>w i labels. Some (SdkBound (7::nat))"
        "[] :: (nat, nat, nat, string \<times> string) calls" "0::nat" "[(''k'', ''v'')]" "7::nat"
        "0::nat" "NewInt64Number 5" "[] :: (nat, nat, nat, string \<times> string) calls"]
  by (simp add: NewInt64Number_def)

subsection \<open>The typed wrap functions\<close>

text \<open>
  C10. Each of the six wrap functions returns the typed handle around the instrument
  that the check function of its kind returns for the same arguments, with the error
  that the check function returns; for (nil, nil) all six return the one sentinel
  \<open>ErrSDKReturnedNilImpl\<close>.
\<close>

theorem wrap_functions_follow_check:
  "wrapInt64CounterInstrument si err =
     (\<lparr>Int64Counter.syncInstrument = fst (checkNewSync si err)\<rparr>, snd (checkNewSync si err))
   \<and> wrapFloat64CounterInstrument si err =
     (\<lparr>Float64Counter.syncInstrument = fst (checkNewSync si err)\<rparr>, snd (checkNewSync si err))
   \<and> wrapInt64MeasureInstrument si err =
     (\<lparr>Int64Measure.syncInstrument = fst (checkNewSync si err)\<rparr>, snd (checkNewSync si err))
   \<and> wrapFloat64MeasureInstrument si err =
     (\<lparr>Float64Measure.syncInstrument = fst (checkNewSync si err)\<rparr>, snd (checkNewSync si err))
   \<and> wrapInt64ObserverInstrument ai err =
     (\<lparr>Int64Observer.asyncInstrument = fst (checkNewAsync ai err)\<rparr>, snd (checkNewAsync ai err))
   \<and> wrapFloat64ObserverInstrument ai err =
     (\<lparr>Float64Observer.asyncInstrument = fst (checkNewAsync ai err)\<rparr>, snd (checkNewAsync ai err))
   \<and> snd (wrapInt64CounterInstrument None None) = Some ErrSDKReturnedNilImpl
   \<and> snd (wrapFloat64CounterInstrument None None) = Some ErrSDKReturnedNilImpl
   \<and> snd (wrapInt64MeasureInstrument None None) = Some ErrSDKReturnedNilImpl
   \<and> snd (wrapFloat64MeasureInstrument None None) = Some ErrSDKReturnedNilImpl
   \<and> snd (wrapInt64ObserverInstrument None None) = Some ErrSDKReturnedNilImpl
   \<and> snd (wrapFloat64ObserverInstrument None None) = Some ErrSDKReturnedNilImpl"
  by (simp add: wrap_defs checkNew_simps split: prod.splits)

end
